theory Spec2Isabelle
  imports Main
begin

section \<open>Values received over the socket\<close>

text \<open>
  \<^verbatim>\<open>data = JSON.parse(event.data) as WebSocketUpdate\<close> is an unchecked cast: at run time
  \<^verbatim>\<open>data\<close> is whatever JSON the frame held. Values are therefore the JSON values, with
  \<open>JUndefined\<close> for the result of reading a property that is not there (the parser itself
  never produces it). An object is the list of its own properties; a parsed object holds
  each key once. Numbers are integers: the client only copies them (timestamps) and
  compares a length with 0.
\<close>

datatype jsval =
    JUndefined
  | JNull
  | JBool bool
  | JNum int
  | JStr string
  | JArr "jsval list"
  | JObj "(string \<times> jsval) list"

text \<open>
  Reading a property \<^verbatim>\<open>v.k\<close> of a value that is neither \<^verbatim>\<open>null\<close> nor \<^verbatim>\<open>undefined\<close>.
  Strings and arrays answer \<^verbatim>\<open>length\<close>; the other names the client reads (\<^verbatim>\<open>type\<close>,
  \<^verbatim>\<open>status\<close>, \<^verbatim>\<open>image_data\<close>, \<^verbatim>\<open>content\<close>, \<^verbatim>\<open>message\<close>, \<^verbatim>\<open>timestamp\<close>, \<^verbatim>\<open>action\<close>,
  \<^verbatim>\<open>details\<close>) are on no prototype, so a value without such an own property answers
  \<^verbatim>\<open>undefined\<close>.
\<close>

fun read_prop :: "jsval \<Rightarrow> string \<Rightarrow> jsval" where
  "read_prop (JObj kvs) k = (case map_of kvs k of None \<Rightarrow> JUndefined | Some v \<Rightarrow> v)"
| "read_prop (JStr s) k = (if k = ''length'' then JNum (int (length s)) else JUndefined)"
| "read_prop (JArr xs) k = (if k = ''length'' then JNum (int (length xs)) else JUndefined)"
| "read_prop v k = JUndefined"

text \<open>
  On \<^verbatim>\<open>null\<close> and \<^verbatim>\<open>undefined\<close> the read throws a TypeError, which is the result \<open>None\<close>.
\<close>

definition get_prop :: "jsval \<Rightarrow> string \<Rightarrow> jsval option" where
  "get_prop v k = (if v = JUndefined \<or> v = JNull then None else Some (read_prop v k))"

text \<open>Truthiness, as \<^verbatim>\<open>&&\<close> and \<^verbatim>\<open>if\<close> test it.\<close>

fun truthy :: "jsval \<Rightarrow> bool" where
  "truthy JUndefined = False"
| "truthy JNull = False"
| "truthy (JBool b) = b"
| "truthy (JNum n) = (n \<noteq> 0)"
| "truthy (JStr s) = (s \<noteq> [])"
| "truthy (JArr xs) = True"
| "truthy (JObj kvs) = True"

text \<open>
  What the JavaScript host supplies to one run of a handler: the clock reading
  \<^verbatim>\<open>Date.now()\<close> (a handler runs to completion, and its calls are taken to read the
  same millisecond), the identifiers \<^verbatim>\<open>uuidv4()\<close> returns (the k-th call of the run),
  whether \<^verbatim>\<open>new WebSocket(...)\<close> and \<^verbatim>\<open>send\<close> throw, and the two coercions of ECMAScript
  for operands that are not of the expected type: \<open>ToString\<close> for a template literal
  over a value that is not a string, \<open>ToNumber_gt_zero\<close> for \<^verbatim>\<open>v > 0\<close> over a value that
  is not a number.
\<close>

record host =
  Date_now :: int
  uuidv4 :: "nat \<Rightarrow> string"
  WebSocket_throws :: bool
  send_throws :: bool
  ToString :: "jsval \<Rightarrow> string"
  ToNumber_gt_zero :: "jsval \<Rightarrow> bool"

definition template_str :: "host \<Rightarrow> jsval \<Rightarrow> string" where
  "template_str h v = (case v of JStr s \<Rightarrow> s | _ \<Rightarrow> ToString h v)"

definition gt_zero :: "host \<Rightarrow> jsval \<Rightarrow> bool" where
  "gt_zero h v = (case v of JNum n \<Rightarrow> 0 < n | _ \<Rightarrow> ToNumber_gt_zero h v)"

section \<open>The types of the client\<close>

text \<open>\<^verbatim>\<open>BrowsingTask\<close>: the two fields of a task.\<close>

record BrowsingTask =
  url :: string
  instruction :: string

datatype sender = User | Agent

text \<open>
  \<^verbatim>\<open>ChatMessage\<close>, \<^verbatim>\<open>ScreenshotData\<close> and \<^verbatim>\<open>StatusUpdate\<close>. The fields the handler fills
  from the parsed frame hold whatever value the frame had, so they are \<open>jsval\<close>.
\<close>

record ChatMessage =
  msg_id :: string
  content :: jsval
  msg_type :: sender
  msg_timestamp :: jsval

record ScreenshotData =
  imageData :: jsval
  shot_timestamp :: jsval

record StatusUpdate =
  status_text :: jsval
  status_timestamp :: jsval

datatype readyState = CONNECTING | OPEN | CLOSING | CLOSED

text \<open>
  The state of the page \<^verbatim>\<open>Home\<close>: its React state, its refs, the three module-level
  variables, the frames handed to \<^verbatim>\<open>send\<close> (each is \<^verbatim>\<open>JSON.stringify\<close> of the task
  recorded here), and the timers that are pending.
\<close>

record home =
  messages :: "ChatMessage list"
  screenshot :: "ScreenshotData option"
  status :: "StatusUpdate option"
  isConnected :: bool
  isLoading :: bool
  hasError :: bool
  lastUpdateTime :: int
  connectionAttempts :: nat
  mounted :: bool
  reconnectTimeout :: bool
  globalWebSocket :: "readyState option"
  connectionAttemptCount :: nat
  connectionInProgress :: bool
  sent :: "BrowsingTask list"
  retryTimers :: "BrowsingTask list"

section \<open>The message handler\<close>

definition agent_message :: "string \<Rightarrow> jsval \<Rightarrow> jsval \<Rightarrow> ChatMessage" where
  "agent_message i c t = \<lparr>msg_id = i, content = c, msg_type = Agent, msg_timestamp = t\<rparr>"

text \<open>
  The \<^verbatim>\<open>catch\<close> block of \<^verbatim>\<open>ws.onmessage\<close>, run on the state the \<^verbatim>\<open>try\<close> block had
  reached when it threw.
\<close>

definition onmessage_catch :: "host \<Rightarrow> home \<Rightarrow> home" where
  "onmessage_catch h s =
     (if mounted s then
        s\<lparr>messages := messages s @
             [agent_message (uuidv4 h 0)
                (JStr ''Error: Failed to process response from server.'')
                (JNum (Date_now h))],
          isLoading := False,
          hasError := True\<rparr>
      else s)"

text \<open>
  The \<^verbatim>\<open>switch (data.type)\<close>; \<open>None\<close> when a branch throws. In \<^verbatim>\<open>case 'screenshot'\<close> the
  logging line reads \<^verbatim>\<open>data.image_data.length\<close> before the guard, so a missing or
  \<^verbatim>\<open>null\<close> field throws. \<^verbatim>\<open>case 'action'\<close> and \<^verbatim>\<open>default\<close> only log.
\<close>

definition onmessage_switch :: "host \<Rightarrow> home \<Rightarrow> jsval \<Rightarrow> home option" where
  "onmessage_switch h s data =
     (if read_prop data ''type'' = JStr ''screenshot'' then
        (case get_prop (read_prop data ''image_data'') ''length'' of
           None \<Rightarrow> None
         | Some len \<Rightarrow>
             if truthy (read_prop data ''image_data'') \<and> gt_zero h len then
               Some (s\<lparr>screenshot := Some \<lparr>imageData = read_prop data ''image_data'',
                                            shot_timestamp = read_prop data ''timestamp''\<rparr>,
                       hasError := False\<rparr>)
             else Some s)
      else if read_prop data ''type'' = JStr ''message'' then
        Some (s\<lparr>messages := messages s @
                  [agent_message (uuidv4 h 0) (read_prop data ''content'') (read_prop data ''timestamp'')]\<rparr>)
      else if read_prop data ''type'' = JStr ''status'' then
        (let s1 = s\<lparr>status := Some \<lparr>status_text = read_prop data ''status'',
                                     status_timestamp = read_prop data ''timestamp''\<rparr>\<rparr>
         in Some (if read_prop data ''status'' = JStr ''Task completed''
                  then s1\<lparr>isLoading := False\<rparr> else s1))
      else if read_prop data ''type'' = JStr ''error'' then
        Some (s\<lparr>messages := messages s @
                  [agent_message (uuidv4 h 0)
                     (JStr (''Error: '' @ template_str h (read_prop data ''message'')))
                     (read_prop data ''timestamp'')],
                isLoading := False,
                hasError := True\<rparr>)
      else Some s)"

text \<open>
  \<^verbatim>\<open>ws.onmessage\<close>. The argument is the result of \<^verbatim>\<open>JSON.parse(event.data)\<close>, \<open>None\<close> when
  the parser throws. The first read of \<^verbatim>\<open>data.type\<close> throws when the frame was the JSON
  text \<^verbatim>\<open>null\<close>.
\<close>

definition onmessage :: "host \<Rightarrow> home \<Rightarrow> jsval option \<Rightarrow> home" where
  "onmessage h s parsed =
     (case parsed of
        None \<Rightarrow> s
      | Some data \<Rightarrow>
          if \<not> mounted s then s
          else
            (case get_prop data ''type'' of
               None \<Rightarrow> onmessage_catch h s
             | Some ty \<Rightarrow>
                 if ty = JStr ''ping'' then s
                 else if ty = JStr ''status'' \<and> read_prop data ''status'' = JStr ''Connected''
                 then s\<lparr>isConnected := True\<rparr>
                 else
                   (let s1 = s\<lparr>lastUpdateTime := Date_now h\<rparr> in
                    case onmessage_switch h s1 data of
                      None \<Rightarrow> onmessage_catch h s1
                    | Some s2 \<Rightarrow> s2)))"

section \<open>Connecting, and the other socket handlers\<close>

text \<open>
  \<^verbatim>\<open>connectWebSocket\<close>. A socket that is closing or closed is dropped (its \<^verbatim>\<open>onclose\<close> is
  removed first); then a new one is created, which starts in \<open>CONNECTING\<close>.
\<close>

definition connectWebSocket :: "host \<Rightarrow> home \<Rightarrow> home" where
  "connectWebSocket h s =
     (if globalWebSocket s = Some OPEN then s\<lparr>isConnected := True\<rparr>
      else if connectionInProgress s then s
      else if globalWebSocket s = Some CONNECTING then s
      else
        (let s1 = (if globalWebSocket s = Some CLOSING \<or> globalWebSocket s = Some CLOSED
                   then s\<lparr>globalWebSocket := None\<rparr> else s);
             s2 = s1\<lparr>connectionInProgress := True,
                     connectionAttemptCount := connectionAttemptCount s1 + 1,
                     connectionAttempts := connectionAttemptCount s1 + 1\<rparr>
         in if WebSocket_throws h then s2\<lparr>connectionInProgress := False\<rparr>
            else s2\<lparr>globalWebSocket := Some CONNECTING\<rparr>))"

definition onopen :: "home \<Rightarrow> home" where
  "onopen s = s\<lparr>isConnected := True, connectionInProgress := False,
                connectionAttemptCount := 0, connectionAttempts := 0\<rparr>"

text \<open>\<^verbatim>\<open>ws.onclose\<close>; a reconnect timer is set unless the closure was normal (code 1000).\<close>

definition onclose :: "home \<Rightarrow> int \<Rightarrow> home" where
  "onclose s code =
     (let s1 = s\<lparr>isConnected := False, connectionInProgress := False\<rparr>
      in if code \<noteq> 1000 \<and> \<not> reconnectTimeout s1 \<and> mounted s1
         then s1\<lparr>reconnectTimeout := True\<rparr> else s1)"

definition reconnect_fires :: "host \<Rightarrow> home \<Rightarrow> home" where
  "reconnect_fires h s =
     (let s1 = s\<lparr>reconnectTimeout := False\<rparr>
      in if mounted s1 then connectWebSocket h s1 else s1)"

definition onerror :: "host \<Rightarrow> home \<Rightarrow> home" where
  "onerror h s =
     (if 2 < connectionAttemptCount s \<and> mounted s then
        s\<lparr>messages := messages s @
             [agent_message (uuidv4 h 0)
                (JStr ''Error: Connection failed after multiple attempts. Check server status.'')
                (JNum (Date_now h))],
          isLoading := False,
          hasError := True\<rparr>
      else s)"

text \<open>The mount effect, the timer it sets, and its cleanup.\<close>

definition mount_effect :: "home \<Rightarrow> home" where
  "mount_effect s =
     (let s1 = s\<lparr>mounted := True\<rparr>
      in if globalWebSocket s1 = None \<or> globalWebSocket s1 = Some CLOSING
            \<or> globalWebSocket s1 = Some CLOSED then s1
         else if globalWebSocket s1 = Some OPEN then s1\<lparr>isConnected := True\<rparr>
         else s1)"

definition connect_fires :: "host \<Rightarrow> home \<Rightarrow> home" where
  "connect_fires h s = (if mounted s then connectWebSocket h s else s)"

definition unmount_cleanup :: "home \<Rightarrow> home" where
  "unmount_cleanup s = s\<lparr>mounted := False, reconnectTimeout := False\<rparr>"

section \<open>Submitting a task\<close>

text \<open>
  \<^verbatim>\<open>TaskInput.handleSubmit\<close>: \<^verbatim>\<open>if (url && instruction) onSubmit({ url, instruction })\<close>. The
  two operands are the strings of the form's state; a string is truthy when it is not
  empty. \<open>None\<close>: \<^verbatim>\<open>onSubmit\<close> is not called.
\<close>

definition handleSubmit :: "string \<Rightarrow> string \<Rightarrow> BrowsingTask option" where
  "handleSubmit u i =
     (if truthy (JStr u) \<and> truthy (JStr i) then Some \<lparr>url = u, instruction = i\<rparr> else None)"

text \<open>
  \<^verbatim>\<open>handleSubmitTask\<close>, the \<^verbatim>\<open>onSubmit\<close> of the form. Without an open socket it reconnects
  and sets a timer holding the task; with one it sends \<^verbatim>\<open>JSON.stringify(task)\<close>.
\<close>

definition handleSubmitTask :: "host \<Rightarrow> home \<Rightarrow> BrowsingTask \<Rightarrow> home" where
  "handleSubmitTask h s task =
     (let s1 = s\<lparr>hasError := False, screenshot := None\<rparr> in
      if globalWebSocket s1 \<noteq> Some OPEN then
        (let s2 = connectWebSocket h s1 in
         s2\<lparr>messages := messages s2 @
               [agent_message (uuidv4 h 0) (JStr ''Connecting to server...'')
                  (JNum (Date_now h))],
            retryTimers := retryTimers s2 @ [task]\<rparr>)
      else
        (let s2 = s1\<lparr>messages := messages s1 @
                      [\<lparr>msg_id = uuidv4 h 0,
                        content = JStr (''URL: '' @ url task @ [CHR 0x0A] @ ''Task: ''
                                        @ instruction task),
                        msg_type = User,
                        msg_timestamp = JNum (Date_now h)\<rparr>],
                    isLoading := True\<rparr> in
         if send_throws h then
           s2\<lparr>messages := messages s2 @
                 [agent_message (uuidv4 h 1)
                    (JStr ''Error: Could not send task to server. Please try again.'')
                    (JNum (Date_now h))],
              isLoading := False\<rparr>
         else s2\<lparr>sent := sent s2 @ [task]\<rparr>))"

text \<open>The callback of the retry timer, with the task the timer holds.\<close>

definition retry_fires :: "host \<Rightarrow> home \<Rightarrow> BrowsingTask \<Rightarrow> home" where
  "retry_fires h s task =
     (if globalWebSocket s = Some OPEN then handleSubmitTask h s task
      else s\<lparr>messages := messages s @
                [agent_message (uuidv4 h 0)
                   (JStr ''Error: Could not connect to server. Please try again.'')
                   (JNum (Date_now h))]\<rparr>)"

section \<open>The page as a transition system\<close>

text \<open>
  Everything that can happen to the page: the effect and its cleanup, the timers, what
  the browser reports about the socket, and the user submitting the form with the
  current contents of its two fields. The browser sets the socket's ready state before
  it calls \<^verbatim>\<open>onopen\<close> or \<^verbatim>\<open>onclose\<close>. The ping interval only fetches and logs; it
  changes nothing and is left out.
\<close>

datatype event =
    Mounts
  | Unmounts
  | ConnectTimerFires
  | ReconnectTimerFires
  | SocketOpens
  | SocketCloses int
  | SocketErrors
  | SocketMessage "jsval option"
  | FormSubmit string string
  | RetryTimerFires

fun step :: "host \<Rightarrow> home \<Rightarrow> event \<Rightarrow> home" where
  "step h s Mounts = mount_effect s"
| "step h s Unmounts = unmount_cleanup s"
| "step h s ConnectTimerFires = connect_fires h s"
| "step h s ReconnectTimerFires = (if reconnectTimeout s then reconnect_fires h s else s)"
| "step h s SocketOpens =
     (if globalWebSocket s = Some CONNECTING then onopen (s\<lparr>globalWebSocket := Some OPEN\<rparr>)
      else s)"
| "step h s (SocketCloses code) =
     (if globalWebSocket s = None \<or> globalWebSocket s = Some CLOSED then s
      else onclose (s\<lparr>globalWebSocket := Some CLOSED\<rparr>) code)"
| "step h s SocketErrors = (if globalWebSocket s = None then s else onerror h s)"
| "step h s (SocketMessage parsed) = onmessage h s parsed"
| "step h s (FormSubmit u i) =
     (case handleSubmit u i of None \<Rightarrow> s | Some task \<Rightarrow> handleSubmitTask h s task)"
| "step h s RetryTimerFires =
     (case retryTimers s of
        [] \<Rightarrow> s
      | task # rest \<Rightarrow> retry_fires h (s\<lparr>retryTimers := rest\<rparr>) task)"

text \<open>A run of the page: each event comes with what the host supplies to its handler.\<close>

fun run :: "home \<Rightarrow> (host \<times> event) list \<Rightarrow> home" where
  "run s [] = s"
| "run s ((h, e) # es) = run (step h s e) es"

text \<open>
  The tasks the page holds after submission: those handed to \<^verbatim>\<open>send\<close> and those in the
  closures of pending retry timers.
\<close>

definition tasks_held :: "home \<Rightarrow> BrowsingTask set" where
  "tasks_held s = set (sent s) \<union> set (retryTimers s)"

definition filled :: "BrowsingTask \<Rightarrow> bool" where
  "filled t = (url t \<noteq> [] \<and> instruction t \<noteq> [])"

text \<open>The page when it is first rendered.\<close>

definition home_init :: home where
  "home_init =
     \<lparr>messages = [], screenshot = None, status = None, isConnected = False,
      isLoading = False, hasError = False, lastUpdateTime = 0, connectionAttempts = 0,
      mounted = False, reconnectTimeout = False, globalWebSocket = None,
      connectionAttemptCount = 0, connectionInProgress = False, sent = [],
      retryTimers = []\<rparr>"

text \<open>
  The type \<^verbatim>\<open>WebSocketUpdate\<close>: which parsed values the declaration admits. TypeScript's
  object types are open (further properties are allowed), \<^verbatim>\<open>thinking\<close> is optional, and
  \<^verbatim>\<open>Record<string, any>\<close> is any object.
\<close>

fun is_string :: "jsval \<Rightarrow> bool" where
  "is_string (JStr s) = True"
| "is_string v = False"

fun is_number :: "jsval \<Rightarrow> bool" where
  "is_number (JNum n) = True"
| "is_number v = False"

fun is_record :: "jsval \<Rightarrow> bool" where
  "is_record (JObj kvs) = True"
| "is_record (JArr xs) = True"
| "is_record v = False"

fun is_WebSocketUpdate :: "jsval \<Rightarrow> bool" where
  "is_WebSocketUpdate (JObj kvs) =
     (let d = JObj kvs in
      is_number (read_prop d ''timestamp'') \<and>
      (read_prop d ''type'' = JStr ''screenshot'' \<and> is_string (read_prop d ''image_data'')
       \<or> read_prop d ''type'' = JStr ''message'' \<and> is_string (read_prop d ''content'')
           \<and> (read_prop d ''thinking'' = JUndefined \<or> is_string (read_prop d ''thinking''))
       \<or> read_prop d ''type'' = JStr ''action'' \<and> is_string (read_prop d ''action'')
           \<and> is_record (read_prop d ''details'')
       \<or> read_prop d ''type'' = JStr ''status'' \<and> is_string (read_prop d ''status'')
       \<or> read_prop d ''type'' = JStr ''error'' \<and> is_string (read_prop d ''message'')
       \<or> read_prop d ''type'' = JStr ''ping''))"
| "is_WebSocketUpdate v = False"

section \<open>The action loop of the specification\<close>

text \<open>
  The sources hold the client only. The loop controller, the selector resolver and the
  operations that start and cancel a run are defined here as the specification words
  them, with what it leaves open (the budgets, the retry limit, the selector syntax, the
  text normalisation) as parameters.
\<close>

subsection \<open>Loop controller\<close>

text \<open>
  Modelled from the spec: the kinds of an \<^verbatim>\<open>ActionDirective\<close> and the confidence tags of a
  \<^verbatim>\<open>ResolvedTarget\<close> (section 3); the backend that declares them is not in the sources.
\<close>

datatype kind = Click | Hover | Scroll | Navigate | Type | Finish | Fail

datatype confidence = Exact | Repaired | Ambiguous | NoMatch

text \<open>Modelled from the spec: an \<^verbatim>\<open>ActionDirective\<close> (section 3).\<close>

record ActionDirective =
  kind :: kind
  targetHint :: string
  candidateUrls :: "string list option"
  rationale :: string

text \<open>
  Modelled from the spec: the reasons a run ends in \<^verbatim>\<open>FAILED\<close> (sections 4.6, 5 and 7):
  the directive was \<^verbatim>\<open>fail\<close>, the retry count of a directive was exceeded ("could not
  complete step"), a budget was exceeded, the run was cancelled, perception failed after
  its one retry, the browser session was lost.
\<close>

datatype reason =
    ModelGaveUp
  | CouldNotCompleteStep
  | BudgetExceeded
  | Cancelled
  | PerceptionFailed
  | SessionLost

text \<open>Modelled from the spec: the states of the loop controller (section 4.6).\<close>

datatype phase = PERCEIVING | DECIDING | RESOLVING | ACTING | VERIFYING | DONE | FAILED reason

text \<open>
  Modelled from the spec: the policy constants, whose values the specification leaves
  to the implementer (section 9): the iteration budget, the wall-clock budget and the
  retry count of a directive.
\<close>

record config =
  maxIterations :: nat
  wallClockBudget :: nat
  retryLimit :: nat

text \<open>
  Modelled from the spec: what the controller owns: its state, the iterations begun, the
  time spent, the directive it is working on with the failure counter scoped to that
  directive (section 4.6), and whether the one retry of a failed perception is used up
  (section 4.1).
\<close>

record controller =
  phase :: phase
  iteration :: nat
  elapsed :: nat
  current :: "ActionDirective option"
  failures :: nat
  perceptionRetried :: bool

text \<open>
  Modelled from the spec: what the collaborators answer at one transition: the stop
  signal, the time the stage takes, and the outcome of each stage (perception succeeded;
  the directive, \<open>None\<close> for a \<^verbatim>\<open>DecisionError\<close>; the resolver's tag; the session lost; the
  verifier's verdicts). A transition reads the answer of its own stage only.
\<close>

record world =
  stop :: bool
  duration :: nat
  perceived :: bool
  directive :: "ActionDirective option"
  resolution :: confidence
  sessionLost :: bool
  changed :: bool
  taskEnded :: bool

text \<open>Modelled from the spec: the initial state is \<^verbatim>\<open>PERCEIVING\<close> (section 4.6).\<close>

definition controller_init :: controller where
  "controller_init =
     \<lparr>phase = PERCEIVING, iteration = 0, elapsed = 0, current = None, failures = 0,
      perceptionRetried = False\<rparr>"

text \<open>Modelled from the spec: the terminal states are \<^verbatim>\<open>DONE\<close> and \<^verbatim>\<open>FAILED\<close>.\<close>

fun terminal :: "phase \<Rightarrow> bool" where
  "terminal DONE = True"
| "terminal (FAILED r) = True"
| "terminal p = False"

text \<open>Modelled from the spec: re-entering \<^verbatim>\<open>PERCEIVING\<close> begins the next iteration.\<close>

definition next_iteration :: "controller \<Rightarrow> controller" where
  "next_iteration c =
     c\<lparr>phase := PERCEIVING, iteration := iteration c + 1, perceptionRetried := False\<rparr>"

text \<open>
  Modelled from the spec: the retry policy (section 4.6). A soft failure re-enters
  \<^verbatim>\<open>PERCEIVING\<close> with the failure counter of the current directive incremented;
  exceeding the retry count escalates to \<^verbatim>\<open>FAILED\<close> with the reason "could not complete
  step".
\<close>

definition soft_failure :: "config \<Rightarrow> controller \<Rightarrow> controller" where
  "soft_failure cfg c =
     (if retryLimit cfg < failures c + 1
      then c\<lparr>phase := FAILED CouldNotCompleteStep, failures := failures c + 1\<rparr>
      else next_iteration (c\<lparr>failures := failures c + 1\<rparr>))"

text \<open>
  Modelled from the spec: the failure counter is scoped to the current directive
  (section 4.6): a directive other than the one the controller was working on becomes
  the current one, with a counter of its own that starts at 0; the same directive again
  keeps its count.
\<close>

definition take_up :: "ActionDirective \<Rightarrow> controller \<Rightarrow> controller" where
  "take_up d c =
     (if current c = Some d then c\<lparr>phase := RESOLVING\<rparr>
      else c\<lparr>phase := RESOLVING, current := Some d, failures := 0\<rparr>)"

text \<open>
  Modelled from the spec: the stage of the current state and where its outcome leads
  (sections 4.1, 4.2, 4.6 and 7). A failed perception is retried once, then fatal; a
  \<^verbatim>\<open>DecisionError\<close> ends the iteration; \<^verbatim>\<open>finish\<close> and \<^verbatim>\<open>fail\<close> are terminal; an
  \<^verbatim>\<open>ambiguous\<close> or \<^verbatim>\<open>none\<close> resolution and an action without observable change are soft
  failures; an observable change resets the failure counter; a lost session is fatal.
\<close>

definition stage :: "config \<Rightarrow> controller \<Rightarrow> world \<Rightarrow> controller" where
  "stage cfg c w =
     (case phase c of
        PERCEIVING \<Rightarrow>
          if perceived w then c\<lparr>phase := DECIDING\<rparr>
          else if perceptionRetried c then c\<lparr>phase := FAILED PerceptionFailed\<rparr>
          else c\<lparr>perceptionRetried := True\<rparr>
      | DECIDING \<Rightarrow>
          (case directive w of
             None \<Rightarrow> next_iteration c
           | Some d \<Rightarrow>
               if kind d = Finish then c\<lparr>phase := DONE\<rparr>
               else if kind d = Fail then c\<lparr>phase := FAILED ModelGaveUp\<rparr>
               else take_up d c)
      | RESOLVING \<Rightarrow>
          (case resolution w of
             Exact \<Rightarrow> c\<lparr>phase := ACTING\<rparr>
           | Repaired \<Rightarrow> c\<lparr>phase := ACTING\<rparr>
           | Ambiguous \<Rightarrow> soft_failure cfg c
           | NoMatch \<Rightarrow> soft_failure cfg c)
      | ACTING \<Rightarrow>
          if sessionLost w then c\<lparr>phase := FAILED SessionLost\<rparr> else c\<lparr>phase := VERIFYING\<rparr>
      | VERIFYING \<Rightarrow>
          if taskEnded w then c\<lparr>phase := DONE\<rparr>
          else if changed w then next_iteration (c\<lparr>failures := 0\<rparr>)
          else soft_failure cfg c
      | DONE \<Rightarrow> c
      | FAILED r \<Rightarrow> c)"

text \<open>
  Modelled from the spec: one state transition (sections 4.6 and 5). At its top the stop
  signal is checked, then the iteration budget; either forces \<^verbatim>\<open>FAILED\<close>. The
  wall-clock budget bounds the total run time: a stage that would run past it is a
  bounded wait that ends at the deadline, and the run is \<^verbatim>\<open>FAILED\<close> with the budget
  spent. Otherwise the stage runs and its time is added to the time spent.
\<close>

definition transition :: "config \<Rightarrow> controller \<Rightarrow> world \<Rightarrow> controller" where
  "transition cfg c w =
     (if terminal (phase c) then c
      else if stop w then c\<lparr>phase := FAILED Cancelled\<rparr>
      else if maxIterations cfg \<le> iteration c then c\<lparr>phase := FAILED BudgetExceeded\<rparr>
      else if wallClockBudget cfg < elapsed c + duration w
      then c\<lparr>phase := FAILED BudgetExceeded,
             elapsed := max (elapsed c) (wallClockBudget cfg)\<rparr>
      else stage cfg (c\<lparr>elapsed := elapsed c + duration w\<rparr>) w)"

text \<open>
  How many transitions a controller has left at most: seven for each iteration of the
  budget not yet begun (five stages, the perception retry, and the budget check), and
  the rank of its state within the iteration.
\<close>

fun rank :: "controller \<Rightarrow> nat" where
  "rank c =
     (case phase c of
        PERCEIVING \<Rightarrow> (if perceptionRetried c then 5 else 6)
      | DECIDING \<Rightarrow> 4 | RESOLVING \<Rightarrow> 3 | ACTING \<Rightarrow> 2 | VERIFYING \<Rightarrow> 1
      | DONE \<Rightarrow> 0 | FAILED r \<Rightarrow> 0)"

definition left :: "config \<Rightarrow> controller \<Rightarrow> nat" where
  "left cfg c =
     (if terminal (phase c) then 0 else 7 * (maxIterations cfg - iteration c) + rank c)"

text \<open>
  Modelled from the spec: the loop. It makes transitions until the state is terminal;
  \<open>env k\<close> is what the collaborators answer at the k-th transition of the run.
\<close>

function run_loop :: "config \<Rightarrow> (nat \<Rightarrow> world) \<Rightarrow> nat \<Rightarrow> controller \<Rightarrow> controller" where
  "run_loop cfg env k c =
     (if terminal (phase c) then c else run_loop cfg env (Suc k) (transition cfg c (env k)))"
  by pat_completeness auto
termination
proof (relation "measure (\<lambda>(cfg, env, k, c). left cfg c)")
  fix cfg :: config and env :: "nat \<Rightarrow> world" and k :: nat and c :: controller
  assume "\<not> terminal (phase c)"
  then have "left cfg (transition cfg c (env k)) < left cfg c"
    by (cases "phase c")
       (auto simp: transition_def stage_def left_def soft_failure_def next_iteration_def
             take_up_def split: option.splits confidence.splits)
  then show "((cfg, env, Suc k, transition cfg c (env k)), (cfg, env, k, c))
               \<in> measure (\<lambda>(cfg, env, k, c). left cfg c)"
    by simp
qed simp

declare run_loop.simps [simp del]

text \<open>The controller after \<open>n\<close> transitions, the first of them the k-th of the run.\<close>

fun after :: "config \<Rightarrow> (nat \<Rightarrow> world) \<Rightarrow> nat \<Rightarrow> nat \<Rightarrow> controller \<Rightarrow> controller" where
  "after cfg env k 0 c = c"
| "after cfg env k (Suc n) c = after cfg env (Suc k) n (transition cfg c (env k))"


subsection \<open>Selector resolver\<close>

text \<open>
  Modelled from the spec: \<^verbatim>\<open>ElementCandidate\<close> and \<^verbatim>\<open>ResolvedTarget\<close> (section 3); the
  resolver of the backend is not in the sources. A snapshot's candidates are a list, in
  document order. The candidate chosen among several is a field of the result.
\<close>

datatype frameContext = MainDocument | Iframe string | Shadow "string list"

record ElementCandidate =
  handle :: nat
  frame :: frameContext
  tagName :: string
  visibleText :: string
  attributes :: "(string \<times> string) list"
  boundingBox :: "int \<times> int \<times> int \<times> int"
  isVisible :: bool
  isInteractable :: bool

record ResolvedTarget =
  candidates :: "ElementCandidate list"
  tag :: confidence
  chosen :: "ElementCandidate option"

text \<open>
  Modelled from the spec: what section 4.3 names without defining: how a target hint
  parses as a structural selector (a tag and attribute-equality clauses, \<open>None\<close> when it
  does not parse), and the normalisation of text (case and whitespace).
\<close>

record matcher =
  parse_selector :: "string \<Rightarrow> (string \<times> (string \<times> string) list) option"
  normalise :: "string \<Rightarrow> string"

text \<open>Modelled from the spec: containment of one string in another (steps 3 to 5).\<close>

fun starts_with :: "string \<Rightarrow> string \<Rightarrow> bool" where
  "starts_with text [] = True"
| "starts_with [] (c # cs) = False"
| "starts_with (t # ts) (c # cs) = (t = c \<and> starts_with ts cs)"

fun contains :: "string \<Rightarrow> string \<Rightarrow> bool" where
  "contains [] part = (part = [])"
| "contains (t # ts) part = (starts_with (t # ts) part \<or> contains ts part)"

text \<open>Modelled from the spec: the five steps of the matching ladder, in order.\<close>

datatype rung = Structural | TextExact | StructuralRepaired | TextPartial | AttributeFallback

definition ladder :: "rung list" where
  "ladder = [Structural, TextExact, StructuralRepaired, TextPartial, AttributeFallback]"

text \<open>
  Modelled from the spec: when a candidate matches the hint at a step: (1) tag and
  attribute equality; (2) equal text after normalisation; (3) the clauses of step 1 read
  as containment; (4) the visible text contains the hint or the hint the text; (5) one
  of \<^verbatim>\<open>aria-label\<close>, \<^verbatim>\<open>title\<close>, \<^verbatim>\<open>alt\<close>, \<^verbatim>\<open>placeholder\<close> contains the hint.
\<close>

fun rung_match :: "matcher \<Rightarrow> rung \<Rightarrow> string \<Rightarrow> ElementCandidate \<Rightarrow> bool" where
  "rung_match m Structural hint c =
     (case parse_selector m hint of
        None \<Rightarrow> False
      | Some (t, clauses) \<Rightarrow>
          tagName c = t \<and> list_all (\<lambda>(k, v). map_of (attributes c) k = Some v) clauses)"
| "rung_match m TextExact hint c = (normalise m hint = normalise m (visibleText c))"
| "rung_match m StructuralRepaired hint c =
     (case parse_selector m hint of
        None \<Rightarrow> False
      | Some (t, clauses) \<Rightarrow>
          tagName c = t \<and>
          list_all (\<lambda>(k, v). case map_of (attributes c) k of
                                 None \<Rightarrow> False | Some w \<Rightarrow> contains w v) clauses)"
| "rung_match m TextPartial hint c =
     (contains (visibleText c) hint \<or> contains hint (visibleText c))"
| "rung_match m AttributeFallback hint c =
     list_ex (\<lambda>k. case map_of (attributes c) k of None \<Rightarrow> False | Some w \<Rightarrow> contains w hint)
       [''aria-label'', ''title'', ''alt'', ''placeholder'']"

text \<open>
  Modelled from the spec: the candidates a step yields, in document order. A candidate
  that is not interactable is never a result (section 8).
\<close>

definition hits :: "matcher \<Rightarrow> rung \<Rightarrow> string \<Rightarrow> ElementCandidate list \<Rightarrow> ElementCandidate list" where
  "hits m r hint snap = filter (\<lambda>c. isInteractable c \<and> rung_match m r hint c) snap"

text \<open>
  Modelled from the spec: the tag of a result: \<^verbatim>\<open>ambiguous\<close> when several candidates
  remain, otherwise \<^verbatim>\<open>exact\<close> for steps 1 and 2 and \<^verbatim>\<open>repaired\<close> for the later ones.
\<close>

definition tag_of :: "rung \<Rightarrow> ElementCandidate list \<Rightarrow> confidence" where
  "tag_of r found =
     (if 1 < length found then Ambiguous
      else if r = Structural \<or> r = TextExact then Exact
      else Repaired)"

text \<open>
  Modelled from the spec: \<^verbatim>\<open>resolve(targetHint, snapshot)\<close> as a program: the steps are
  tried in order until one yields a candidate, and the first candidate in document order
  is chosen; after the last step the result is \<^verbatim>\<open>none\<close>.
\<close>

fun climb :: "matcher \<Rightarrow> rung list \<Rightarrow> string \<Rightarrow> ElementCandidate list \<Rightarrow> ResolvedTarget" where
  "climb m [] hint snap = \<lparr>candidates = [], tag = NoMatch, chosen = None\<rparr>"
| "climb m (r # rs) hint snap =
     (case hits m r hint snap of
        [] \<Rightarrow> climb m rs hint snap
      | c # cs \<Rightarrow> \<lparr>candidates = c # cs, tag = tag_of r (c # cs), chosen = Some c\<rparr>)"

definition resolve :: "matcher \<Rightarrow> string \<Rightarrow> ElementCandidate list \<Rightarrow> ResolvedTarget" where
  "resolve m hint snap = climb m ladder hint snap"

text \<open>
  Modelled from the spec: the results section 4.3 allows, as a relation: the result of
  the first step that yields a candidate, with a candidate chosen that matches at that
  step and has no match before it in the document; or \<^verbatim>\<open>none\<close> when no step yields one.
\<close>

inductive resolves :: "matcher \<Rightarrow> string \<Rightarrow> ElementCandidate list \<Rightarrow> ResolvedTarget \<Rightarrow> bool"
  for m :: matcher and hint :: string and snap :: "ElementCandidate list" where
  found:
    "k < length ladder \<Longrightarrow>
     \<forall>j < k. hits m (ladder ! j) hint snap = [] \<Longrightarrow>
     hits m (ladder ! k) hint snap \<noteq> [] \<Longrightarrow>
     i < length snap \<Longrightarrow>
     isInteractable (snap ! i) \<and> rung_match m (ladder ! k) hint (snap ! i) \<Longrightarrow>
     \<forall>j < i. \<not> (isInteractable (snap ! j) \<and> rung_match m (ladder ! k) hint (snap ! j)) \<Longrightarrow>
     resolves m hint snap
       \<lparr>candidates = hits m (ladder ! k) hint snap,
        tag = tag_of (ladder ! k) (hits m (ladder ! k) hint snap),
        chosen = Some (snap ! i)\<rparr>"
| missed:
    "\<forall>j < length ladder. hits m (ladder ! j) hint snap = [] \<Longrightarrow>
     resolves m hint snap \<lparr>candidates = [], tag = NoMatch, chosen = None\<rparr>"

subsection \<open>Starting and cancelling a run\<close>

text \<open>
  Modelled from the spec: a run: its task, its controller and the stop signal
  (sections 5 and 6); the core that keeps runs is not in the sources. The task is the
  client's \<^verbatim>\<open>BrowsingTask\<close>.
\<close>

record run_state =
  task :: BrowsingTask
  ctl :: controller
  stopRequested :: bool

text \<open>Modelled from the spec: the runs of the core by run id, and the next id to give.\<close>

record core =
  nextRunId :: nat
  runs :: "nat \<Rightarrow> run_state option"

text \<open>
  Modelled from the spec: \<^verbatim>\<open>startRun(task: {url, instruction}) -> runId\<close>. The new run
  starts in \<^verbatim>\<open>PERCEIVING\<close> and shares nothing with the other runs.
\<close>

definition startRun :: "BrowsingTask \<Rightarrow> core \<Rightarrow> nat \<times> core" where
  "startRun t c =
     (nextRunId c,
      c\<lparr>nextRunId := nextRunId c + 1,
        runs := (runs c)(nextRunId c \<mapsto>
                  \<lparr>task = t, ctl = controller_init, stopRequested = False\<rparr>)\<rparr>)"

text \<open>
  Modelled from the spec: \<^verbatim>\<open>cancelRun(runId)\<close>. Cancellation is cooperative: it raises
  the stop signal of the run, which the controller reads at its next transition. \<open>None\<close>:
  there is no such run.
\<close>

definition cancelRun :: "nat \<Rightarrow> core \<Rightarrow> core option" where
  "cancelRun rid c =
     (case runs c rid of
        None \<Rightarrow> None
      | Some r \<Rightarrow> Some (c\<lparr>runs := (runs c)(rid \<mapsto> r\<lparr>stopRequested := True\<rparr>)\<rparr>))"

text \<open>
  Modelled from the spec: one transition of a run of the core; the stop signal the
  controller reads is the one \<^verbatim>\<open>cancelRun\<close> raised.
\<close>

definition advance :: "config \<Rightarrow> nat \<Rightarrow> world \<Rightarrow> core \<Rightarrow> core" where
  "advance cfg rid w c =
     (case runs c rid of
        None \<Rightarrow> c
      | Some r \<Rightarrow>
          c\<lparr>runs := (runs c)(rid \<mapsto>
               r\<lparr>ctl := transition cfg (ctl r) (w\<lparr>stop := stopRequested r\<rparr>)\<rparr>)\<rparr>)"

section \<open>The progress events as the specification words them\<close>

text \<open>
  The screenshot event of the specification: \<^verbatim>\<open>{type: screenshot, imageData, timestamp}\<close>.
\<close>

definition spec_screenshot_event :: "jsval \<Rightarrow> bool" where
  "spec_screenshot_event d =
     (get_prop d ''type'' = Some (JStr ''screenshot'')
      \<and> is_string (read_prop d ''imageData'')
      \<and> is_number (read_prop d ''timestamp''))"

text \<open>The four status values the specification lists.\<close>

definition spec_status_values :: "jsval set" where
  "spec_status_values =
     {JStr ''Connected'', JStr ''Running'', JStr ''Task completed'', JStr ''Failed''}"

text \<open>
  The message event of the specification: exactly the fields \<^verbatim>\<open>type\<close>, \<^verbatim>\<open>content\<close> and
  \<^verbatim>\<open>timestamp\<close>.
\<close>

fun spec_message_event :: "jsval \<Rightarrow> bool" where
  "spec_message_event (JObj kvs) =
     (list_all (\<lambda>k. k = ''type'' \<or> k = ''content'' \<or> k = ''timestamp'') (map fst kvs)
      \<and> read_prop (JObj kvs) ''type'' = JStr ''message''
      \<and> is_string (read_prop (JObj kvs) ''content'')
      \<and> is_number (read_prop (JObj kvs) ''timestamp''))"
| "spec_message_event v = False"

section \<open>Concrete hosts, pages, frames and runs\<close>

text \<open>A host and a mounted page with an open socket.\<close>

definition host0 :: host where
  "host0 = \<lparr>Date_now = 1700000000000, uuidv4 = (\<lambda>k. if k = 0 then ''id-a'' else ''id-b''),
            WebSocket_throws = False, send_throws = False,
            ToString = (\<lambda>v. ''[object Object]''), ToNumber_gt_zero = (\<lambda>v. False)\<rparr>"

definition home_open :: home where
  "home_open = home_init\<lparr>mounted := True, globalWebSocket := Some OPEN, isConnected := True\<rparr>"

text \<open>A page that shows a screenshot and an error while a task is running.\<close>

definition home_shown :: home where
  "home_shown =
     home_open\<lparr>screenshot := Some \<lparr>imageData = JStr ''b2xk'', shot_timestamp = JNum 3\<rparr>,
               hasError := True, isLoading := True\<rparr>"

definition ping0 :: jsval where
  "ping0 = JObj [(''type'', JStr ''ping''), (''timestamp'', JNum 7)]"

definition shot_empty :: jsval where
  "shot_empty =
     JObj [(''type'', JStr ''screenshot''), (''image_data'', JStr []), (''timestamp'', JNum 7)]"

text \<open>A screenshot frame whose image is not a string but a JSON array.\<close>

definition shot_array :: jsval where
  "shot_array =
     JObj [(''type'', JStr ''screenshot''), (''image_data'', JArr [JStr ''aGVsbG8='']),
           (''timestamp'', JNum 7)]"

definition shot0 :: jsval where
  "shot0 =
     JObj [(''type'', JStr ''screenshot''), (''image_data'', JStr ''aGVsbG8=''),
           (''timestamp'', JNum 42)]"

text \<open>The same screenshot under the field name of the specification.\<close>

definition shot_camel :: jsval where
  "shot_camel =
     JObj [(''type'', JStr ''screenshot''), (''imageData'', JStr ''aGVsbG8=''),
           (''timestamp'', JNum 42)]"

definition status_nav :: jsval where
  "status_nav =
     JObj [(''type'', JStr ''status''), (''status'', JStr ''Navigating to page''),
           (''timestamp'', JNum 9)]"

definition msg_thinking :: jsval where
  "msg_thinking =
     JObj [(''type'', JStr ''message''), (''content'', JStr ''Opening the pricing page''),
           (''thinking'', JStr ''The header has a Pricing link''), (''timestamp'', JNum 11)]"

text \<open>
  Two runs of the page. In the first the socket is open when the form is submitted, once
  filled in and once with an empty instruction. In the second the form is submitted
  before the socket opens, and the retry timer sends the task.
\<close>

definition run0 :: "(host \<times> event) list" where
  "run0 =
     [(host0, Mounts), (host0, ConnectTimerFires), (host0, SocketOpens),
      (host0, FormSubmit ''https://example.com'' ''find the pricing link''),
      (host0, FormSubmit ''https://example.com'' [])]"

definition run_retry :: "(host \<times> event) list" where
  "run_retry =
     [(host0, Mounts),
      (host0, FormSubmit ''https://example.com'' ''find the pricing link''),
      (host0, SocketOpens), (host0, RetryTimerFires)]"

text \<open>
  A configuration of the loop, two directives, collaborators that never find the
  target (always of the first directive, or of the two in turn, one iteration each), a
  matcher without structural selectors, a snapshot with a hidden and two visible links
  named Products, and a task for an empty core.
\<close>

definition cfg0 :: config where
  "cfg0 = \<lparr>maxIterations = 5, wallClockBudget = 100, retryLimit = 1\<rparr>"

definition click_sign_in :: ActionDirective where
  "click_sign_in =
     \<lparr>kind = Click, targetHint = ''Sign In button'', candidateUrls = None,
      rationale = ''the task needs an account''\<rparr>"

definition click_log_in :: ActionDirective where
  "click_log_in =
     \<lparr>kind = Click, targetHint = ''Log in'', candidateUrls = None,
      rationale = ''the button may be named otherwise''\<rparr>"

definition world_miss :: world where
  "world_miss = \<lparr>stop = False, duration = 2, perceived = True,
                 directive = Some click_sign_in, resolution = NoMatch, sessionLost = False,
                 changed = False, taskEnded = False\<rparr>"

definition env_miss :: "nat \<Rightarrow> world" where
  "env_miss k = world_miss"

definition env_turns :: "nat \<Rightarrow> world" where
  "env_turns k =
     (if even (k div 3) then world_miss else world_miss\<lparr>directive := Some click_log_in\<rparr>)"

text \<open>A configuration whose wall-clock budget ends in the middle of the second stage.\<close>

definition cfg_tight :: config where
  "cfg_tight = \<lparr>maxIterations = 5, wallClockBudget = 3, retryLimit = 1\<rparr>"

definition matcher0 :: matcher where
  "matcher0 = \<lparr>parse_selector = (\<lambda>s. None), normalise = (\<lambda>s. s)\<rparr>"

definition link :: "nat \<Rightarrow> string \<Rightarrow> string \<Rightarrow> bool \<Rightarrow> ElementCandidate" where
  "link n label href ok =
     \<lparr>handle = n, frame = MainDocument, tagName = ''a'', visibleText = label,
      attributes = [(''href'', href)], boundingBox = (0, 0, 80, 20), isVisible = ok,
      isInteractable = ok\<rparr>"

definition snap0 :: "ElementCandidate list" where
  "snap0 =
     [link 0 ''Products'' ''/hidden'' False,
      link 1 ''Pricing'' ''/pricing'' True,
      link 2 ''Products'' ''/products'' True,
      link 3 ''Products'' ''/enterprise/products'' True]"

definition task0 :: BrowsingTask where
  "task0 = \<lparr>url = ''https://example.com'', instruction = ''find the pricing link''\<rparr>"

definition core0 :: core where
  "core0 = \<lparr>nextRunId = 0, runs = (\<lambda>i. None)\<rparr>"

section \<open>Properties of the message handler\<close>

lemma is_string_iff: "is_string v \<longleftrightarrow> (\<exists>s. v = JStr s)"
  by (cases v) auto

lemma is_number_iff: "is_number v \<longleftrightarrow> (\<exists>n. v = JNum n)"
  by (cases v) auto

lemma is_WebSocketUpdate_obj: "is_WebSocketUpdate d \<Longrightarrow> \<exists>kvs. d = JObj kvs"
  by (cases d) auto

text \<open>
  C1, as stated: every screenshot event delivered to the page is a record of type
  \<^verbatim>\<open>screenshot\<close> with a string \<^verbatim>\<open>imageData\<close> and a timestamp. It fails on the field's
  name. The frame below is a \<^verbatim>\<open>WebSocketUpdate\<close>, the handler displays it, and it has no
  \<^verbatim>\<open>imageData\<close>; the frame worded as the specification has it is not a
  \<^verbatim>\<open>WebSocketUpdate\<close>, and the handler answers it with the error state.
\<close>

theorem screenshot_field_name_counterexample:
  "is_WebSocketUpdate shot0 \<and>
   screenshot (onmessage host0 home_open (Some shot0))
     = Some \<lparr>imageData = JStr ''aGVsbG8='', shot_timestamp = JNum 42\<rparr> \<and>
   \<not> spec_screenshot_event shot0 \<and>
   spec_screenshot_event shot_camel \<and>
   \<not> is_WebSocketUpdate shot_camel \<and>
   screenshot (onmessage host0 home_open (Some shot_camel)) = None \<and>
   hasError (onmessage host0 home_open (Some shot_camel))"
  by (simp add: shot0_def shot_camel_def spec_screenshot_event_def onmessage_def
        onmessage_switch_def onmessage_catch_def get_prop_def gt_zero_def host0_def
        home_open_def home_init_def)

text \<open>
  C1, amended: every screenshot event delivered to the page is a record of type
  \<^verbatim>\<open>screenshot\<close> whose fields are an image string named \<^verbatim>\<open>image_data\<close> and a timestamp.
  The handler turns a non-empty one into the record \<^verbatim>\<open>{imageData, timestamp}\<close> the page
  displays and clears the error flag; an empty one only moves the last-update time.
\<close>

theorem screenshot_event_fields:
  assumes wf: "is_WebSocketUpdate d"
    and ty: "read_prop d ''type'' = JStr ''screenshot''"
    and m: "mounted s"
  shows "\<exists>img ts. read_prop d ''image_data'' = JStr img \<and> read_prop d ''timestamp'' = JNum ts \<and>
           onmessage h s (Some d) =
             (if img = [] then s\<lparr>lastUpdateTime := Date_now h\<rparr>
              else s\<lparr>lastUpdateTime := Date_now h,
                     screenshot := Some \<lparr>imageData = JStr img, shot_timestamp = JNum ts\<rparr>,
                     hasError := False\<rparr>)"
proof -
  from wf obtain kvs where d: "d = JObj kvs"
    using is_WebSocketUpdate_obj by blast
  from wf ty d obtain img ts where
    f: "read_prop d ''image_data'' = JStr img" "read_prop d ''timestamp'' = JNum ts"
    by (auto simp: Let_def is_string_iff is_number_iff)
  have "onmessage h s (Some d) =
             (if img = [] then s\<lparr>lastUpdateTime := Date_now h\<rparr>
              else s\<lparr>lastUpdateTime := Date_now h,
                     screenshot := Some \<lparr>imageData = JStr img, shot_timestamp = JNum ts\<rparr>,
                     hasError := False\<rparr>)"
    using ty m f unfolding d
    by (simp add: onmessage_def onmessage_switch_def get_prop_def gt_zero_def Let_def)
  with f show ?thesis by blast
qed

theorem screenshot_event_fields_witness:
  "is_WebSocketUpdate shot0 \<and> read_prop shot0 ''type'' = JStr ''screenshot'' \<and>
   mounted home_open \<and>
   onmessage host0 home_open (Some shot0) =
     home_open\<lparr>lastUpdateTime := 1700000000000,
               screenshot := Some \<lparr>imageData = JStr ''aGVsbG8='', shot_timestamp = JNum 42\<rparr>,
               hasError := False\<rparr>"
  using screenshot_event_fields [of shot0 home_open host0]
  by (simp add: shot0_def host0_def home_open_def home_init_def)

text \<open>
  C2, as stated: the status of every status event is one of \<^verbatim>\<open>Connected\<close>, \<^verbatim>\<open>Running\<close>,
  \<^verbatim>\<open>Task completed\<close>, \<^verbatim>\<open>Failed\<close>. The type declares \<^verbatim>\<open>status: string\<close>, and the handler
  stores any string: the frame below is a \<^verbatim>\<open>WebSocketUpdate\<close>, becomes the status the page
  shows, and is none of the four.
\<close>

theorem status_values_counterexample:
  "is_WebSocketUpdate status_nav \<and>
   status (onmessage host0 home_open (Some status_nav))
     = Some \<lparr>status_text = JStr ''Navigating to page'', status_timestamp = JNum 9\<rparr> \<and>
   read_prop status_nav ''status'' \<notin> spec_status_values"
  by (simp add: status_nav_def spec_status_values_def onmessage_def
        onmessage_switch_def get_prop_def host0_def home_open_def home_init_def)

text \<open>
  C2, amended: the status of every status event is a string. The handler knows two
  values: \<^verbatim>\<open>Connected\<close> only sets the connected flag, and \<^verbatim>\<open>Task completed\<close> also clears
  the loading flag; every status but \<^verbatim>\<open>Connected\<close> becomes the status the page shows.
\<close>

theorem status_event_handling:
  assumes wf: "is_WebSocketUpdate d"
    and ty: "read_prop d ''type'' = JStr ''status''"
    and m: "mounted s"
  shows "\<exists>st ts. read_prop d ''status'' = JStr st \<and> read_prop d ''timestamp'' = JNum ts \<and>
           onmessage h s (Some d) =
             (if st = ''Connected'' then s\<lparr>isConnected := True\<rparr>
              else s\<lparr>lastUpdateTime := Date_now h,
                     status := Some \<lparr>status_text = JStr st, status_timestamp = JNum ts\<rparr>,
                     isLoading := (if st = ''Task completed'' then False else isLoading s)\<rparr>)"
proof -
  from wf obtain kvs where d: "d = JObj kvs"
    using is_WebSocketUpdate_obj by blast
  from wf ty d obtain st ts where
    f: "read_prop d ''status'' = JStr st" "read_prop d ''timestamp'' = JNum ts"
    by (auto simp: Let_def is_string_iff is_number_iff)
  have "onmessage h s (Some d) =
             (if st = ''Connected'' then s\<lparr>isConnected := True\<rparr>
              else s\<lparr>lastUpdateTime := Date_now h,
                     status := Some \<lparr>status_text = JStr st, status_timestamp = JNum ts\<rparr>,
                     isLoading := (if st = ''Task completed'' then False else isLoading s)\<rparr>)"
    using ty m f unfolding d
    by (simp add: onmessage_def onmessage_switch_def get_prop_def Let_def)
  with f show ?thesis by blast
qed

theorem status_event_handling_witness:
  "is_WebSocketUpdate status_nav \<and> read_prop status_nav ''type'' = JStr ''status'' \<and>
   mounted home_open \<and>
   onmessage host0 home_open (Some status_nav) =
     home_open\<lparr>lastUpdateTime := 1700000000000,
               status := Some \<lparr>status_text = JStr ''Navigating to page'',
                               status_timestamp = JNum 9\<rparr>\<rparr>"
  using status_event_handling [of status_nav home_open host0]
  by (simp add: status_nav_def host0_def home_open_def home_init_def)

text \<open>
  C6, as stated: every message event has exactly the fields \<^verbatim>\<open>type\<close>, \<^verbatim>\<open>content\<close> and
  \<^verbatim>\<open>timestamp\<close>. The type also declares an optional \<^verbatim>\<open>thinking\<close>: the frame below carries
  it, is a \<^verbatim>\<open>WebSocketUpdate\<close>, and is handled as a message.
\<close>

theorem message_fields_counterexample:
  "is_WebSocketUpdate msg_thinking \<and>
   messages (onmessage host0 home_open (Some msg_thinking))
     = [agent_message ''id-a'' (JStr ''Opening the pricing page'') (JNum 11)] \<and>
   \<not> spec_message_event msg_thinking"
  by (simp add: msg_thinking_def onmessage_def
        onmessage_switch_def get_prop_def host0_def home_open_def home_init_def)

text \<open>
  C6, amended: every message event is a record with the fields \<^verbatim>\<open>type\<close> \<^verbatim>\<open>message\<close>, a
  string \<^verbatim>\<open>content\<close>, a timestamp and, optionally, a string \<^verbatim>\<open>thinking\<close>. The handler
  appends an agent message with the content and the timestamp, and reads nothing else.
\<close>

theorem message_event_handling:
  assumes wf: "is_WebSocketUpdate d"
    and ty: "read_prop d ''type'' = JStr ''message''"
    and m: "mounted s"
  shows "\<exists>c ts. read_prop d ''content'' = JStr c \<and> read_prop d ''timestamp'' = JNum ts \<and>
           (read_prop d ''thinking'' = JUndefined \<or> is_string (read_prop d ''thinking'')) \<and>
           onmessage h s (Some d) =
             s\<lparr>lastUpdateTime := Date_now h,
               messages := messages s @ [agent_message (uuidv4 h 0) (JStr c) (JNum ts)]\<rparr>"
proof -
  from wf obtain kvs where d: "d = JObj kvs"
    using is_WebSocketUpdate_obj by blast
  from wf ty d obtain c ts where
    f: "read_prop d ''content'' = JStr c" "read_prop d ''timestamp'' = JNum ts"
     and th: "read_prop d ''thinking'' = JUndefined \<or> is_string (read_prop d ''thinking'')"
    by (auto simp: Let_def is_string_iff is_number_iff)
  have "onmessage h s (Some d) =
             s\<lparr>lastUpdateTime := Date_now h,
               messages := messages s @ [agent_message (uuidv4 h 0) (JStr c) (JNum ts)]\<rparr>"
    using ty m f unfolding d
    by (simp add: onmessage_def onmessage_switch_def get_prop_def Let_def)
  with f th show ?thesis by blast
qed

theorem message_event_handling_witness:
  "is_WebSocketUpdate msg_thinking \<and> read_prop msg_thinking ''type'' = JStr ''message'' \<and>
   mounted home_open \<and>
   onmessage host0 home_open (Some msg_thinking) =
     home_open\<lparr>lastUpdateTime := 1700000000000,
               messages := [agent_message ''id-a'' (JStr ''Opening the pricing page'') (JNum 11)]\<rparr>"
  using message_event_handling [of msg_thinking home_open host0]
  by (simp add: msg_thinking_def host0_def home_open_def home_init_def)

text \<open>
  C8. A ping event changes nothing the page shows: after the handler the message list,
  the screenshot, the status, the loading flag, the error flag and the last-update time
  are what they were before it.
\<close>

theorem ping_changes_nothing:
  "get_prop data ''type'' = Some (JStr ''ping'') \<Longrightarrow>
     messages (onmessage h s (Some data)) = messages s \<and>
     screenshot (onmessage h s (Some data)) = screenshot s \<and>
     status (onmessage h s (Some data)) = status s \<and>
     isLoading (onmessage h s (Some data)) = isLoading s \<and>
     hasError (onmessage h s (Some data)) = hasError s \<and>
     lastUpdateTime (onmessage h s (Some data)) = lastUpdateTime s"
  by (simp add: onmessage_def)

theorem ping_changes_nothing_witness:
  "get_prop ping0 ''type'' = Some (JStr ''ping'') \<and>
   messages (onmessage host0 home_shown (Some ping0)) = messages home_shown \<and>
   screenshot (onmessage host0 home_shown (Some ping0)) = screenshot home_shown \<and>
   status (onmessage host0 home_shown (Some ping0)) = status home_shown \<and>
   isLoading (onmessage host0 home_shown (Some ping0)) = isLoading home_shown \<and>
   hasError (onmessage host0 home_shown (Some ping0)) = hasError home_shown \<and>
   lastUpdateTime (onmessage host0 home_shown (Some ping0)) = lastUpdateTime home_shown"
  using ping_changes_nothing [of ping0 host0 home_shown]
  by (simp add: ping0_def get_prop_def)

text \<open>
  C9, as stated: a screenshot event whose \<^verbatim>\<open>image_data\<close> is missing or the empty string
  leaves the displayed screenshot and does not clear the error flag, and the screenshot
  is replaced only when \<^verbatim>\<open>image_data\<close> is a non-empty string. The last part fails: the
  guard \<^verbatim>\<open>data.image_data && data.image_data.length > 0\<close> asks for a truthy value with a
  positive length, not for a string. The frame below carries a JSON array; the handler
  stores it as the screenshot and clears the error flag.
\<close>

theorem image_data_array_counterexample:
  "get_prop shot_array ''type'' = Some (JStr ''screenshot'') \<and>
   \<not> is_string (read_prop shot_array ''image_data'') \<and>
   screenshot (onmessage host0 home_shown (Some shot_array))
     = Some \<lparr>imageData = JArr [JStr ''aGVsbG8=''], shot_timestamp = JNum 7\<rparr> \<and>
   screenshot (onmessage host0 home_shown (Some shot_array)) \<noteq> screenshot home_shown \<and>
   hasError home_shown \<and>
   \<not> hasError (onmessage host0 home_shown (Some shot_array))"
  by (simp add: shot_array_def onmessage_def onmessage_switch_def get_prop_def gt_zero_def
        host0_def home_shown_def home_open_def home_init_def)

text \<open>
  C9, amended: a screenshot event whose \<^verbatim>\<open>image_data\<close> is missing or the empty string
  leaves the displayed screenshot and does not clear the error flag (with the empty
  string the flag keeps its value; with the field missing the read of its length throws
  and the \<^verbatim>\<open>catch\<close> block sets the flag). The screenshot is replaced only when
  \<^verbatim>\<open>image_data\<close> is truthy and has a length greater than 0, which for a string means
  that it is not empty; what is stored then is \<^verbatim>\<open>image_data\<close> with the frame's timestamp.
\<close>

theorem screenshot_replaced_only_by_guard:
  assumes ty: "get_prop data ''type'' = Some (JStr ''screenshot'')"
  shows "(read_prop data ''image_data'' = JUndefined
            \<or> read_prop data ''image_data'' = JStr []
          \<longrightarrow> screenshot (onmessage h s (Some data)) = screenshot s
              \<and> (hasError s \<longrightarrow> hasError (onmessage h s (Some data))))
       \<and> (screenshot (onmessage h s (Some data)) \<noteq> screenshot s
          \<longrightarrow> truthy (read_prop data ''image_data'')
              \<and> gt_zero h (read_prop (read_prop data ''image_data'') ''length'')
              \<and> (\<forall>img. read_prop data ''image_data'' = JStr img \<longrightarrow> img \<noteq> [])
              \<and> screenshot (onmessage h s (Some data))
                  = Some \<lparr>imageData = read_prop data ''image_data'',
                          shot_timestamp = read_prop data ''timestamp''\<rparr>)"
  using ty
  by (auto simp: onmessage_def onmessage_switch_def onmessage_catch_def get_prop_def
        Let_def split: if_splits)

theorem screenshot_replaced_only_by_guard_witness:
  "get_prop shot_empty ''type'' = Some (JStr ''screenshot'') \<and>
   read_prop shot_empty ''image_data'' = JStr [] \<and>
   screenshot (onmessage host0 home_shown (Some shot_empty)) = screenshot home_shown \<and>
   hasError home_shown \<and>
   hasError (onmessage host0 home_shown (Some shot_empty)) \<and>
   get_prop shot0 ''type'' = Some (JStr ''screenshot'') \<and>
   screenshot (onmessage host0 home_shown (Some shot0)) \<noteq> screenshot home_shown \<and>
   truthy (read_prop shot0 ''image_data'')"
  using screenshot_replaced_only_by_guard [of shot_empty host0 home_shown]
    screenshot_replaced_only_by_guard [of shot0 host0 home_shown]
  by (simp add: shot_empty_def shot0_def get_prop_def home_shown_def home_open_def
        home_init_def onmessage_def onmessage_switch_def gt_zero_def host0_def)

text \<open>
  The same event without the field: the screenshot stays, and the handler's \<^verbatim>\<open>catch\<close>
  block reports a failure in the chat and sets the error flag.
\<close>

lemma missing_image_data_run:
  "onmessage host0 home_open (Some (JObj [(''type'', JStr ''screenshot''), (''timestamp'', JNum 7)]))
   = home_open\<lparr>lastUpdateTime := 1700000000000,
       messages := [agent_message ''id-a''
                      (JStr ''Error: Failed to process response from server.'')
                      (JNum 1700000000000)],
       isLoading := False, hasError := True\<rparr>"
  by (simp add: onmessage_def onmessage_switch_def onmessage_catch_def get_prop_def host0_def
        home_open_def home_init_def)

section \<open>Properties of submitting a task\<close>

lemma connectWebSocket_tasks [simp]:
  "sent (connectWebSocket h s) = sent s" "retryTimers (connectWebSocket h s) = retryTimers s"
  by (simp_all add: connectWebSocket_def Let_def)

lemma onmessage_tasks [simp]:
  "sent (onmessage h s p) = sent s" "retryTimers (onmessage h s p) = retryTimers s"
  by (simp_all add: onmessage_def onmessage_switch_def onmessage_catch_def Let_def
        split: option.splits)

lemma handleSubmitTask_sent:
  "sent (handleSubmitTask h s t) = sent s \<or> sent (handleSubmitTask h s t) = sent s @ [t]"
  by (simp add: handleSubmitTask_def Let_def)

lemma handleSubmitTask_timers:
  "retryTimers (handleSubmitTask h s t) = retryTimers s
   \<or> retryTimers (handleSubmitTask h s t) = retryTimers s @ [t]"
  by (simp add: handleSubmitTask_def Let_def)

lemma handleSubmit_Some:
  "handleSubmit u i = Some t \<Longrightarrow> t = \<lparr>url = u, instruction = i\<rparr> \<and> u \<noteq> [] \<and> i \<noteq> []"
  by (auto simp: handleSubmit_def split: if_splits)

lemma step_sent:
  "sent (step h s e) = sent s
   \<or> (\<exists>t. sent (step h s e) = sent s @ [t]
          \<and> (t \<in> set (retryTimers s)
              \<or> (\<exists>u i. e = FormSubmit u i \<and> u \<noteq> [] \<and> i \<noteq> [] \<and> t = \<lparr>url = u, instruction = i\<rparr>)))"
proof (cases e)
  case (FormSubmit u i)
  show ?thesis
  proof (cases "handleSubmit u i")
    case None
    with FormSubmit show ?thesis by simp
  next
    case (Some t)
    with FormSubmit handleSubmit_Some [OF Some] handleSubmitTask_sent [of h s t]
    show ?thesis by auto
  qed
next
  case RetryTimerFires
  show ?thesis
  proof (cases "retryTimers s")
    case Nil
    with RetryTimerFires show ?thesis by simp
  next
    case (Cons t rest)
    with RetryTimerFires handleSubmitTask_sent [of h "s\<lparr>retryTimers := rest\<rparr>" t]
    show ?thesis by (auto simp: retry_fires_def)
  qed
qed (simp_all add: mount_effect_def unmount_cleanup_def connect_fires_def reconnect_fires_def
       onopen_def onclose_def onerror_def Let_def)

lemma step_timers:
  "set (retryTimers (step h s e)) \<subseteq> set (retryTimers s)
   \<or> (\<exists>u i. e = FormSubmit u i \<and> u \<noteq> [] \<and> i \<noteq> []
          \<and> retryTimers (step h s e) = retryTimers s @ [\<lparr>url = u, instruction = i\<rparr>])"
proof (cases e)
  case (FormSubmit u i)
  show ?thesis
  proof (cases "handleSubmit u i")
    case None
    with FormSubmit show ?thesis by simp
  next
    case (Some t)
    with FormSubmit handleSubmit_Some [OF Some] handleSubmitTask_timers [of h s t]
    show ?thesis by auto
  qed
next
  case RetryTimerFires
  show ?thesis
  proof (cases "retryTimers s")
    case Nil
    with RetryTimerFires show ?thesis by simp
  next
    case (Cons t rest)
    with RetryTimerFires show ?thesis
      by (auto simp: retry_fires_def handleSubmitTask_def Let_def)
  qed
qed (simp_all add: mount_effect_def unmount_cleanup_def connect_fires_def reconnect_fires_def
       onopen_def onclose_def onerror_def Let_def)

lemma step_filled:
  assumes "\<forall>t \<in> tasks_held s. filled t"
  shows "\<forall>t \<in> tasks_held (step h s e). filled t"
  using assms step_sent [of h s e] step_timers [of h s e]
  by (fastforce simp: tasks_held_def filled_def)

lemma run_filled:
  "\<forall>t \<in> tasks_held s. filled t \<Longrightarrow> \<forall>t \<in> tasks_held (run s es). filled t"
proof (induction es arbitrary: s)
  case Nil
  then show ?case by simp
next
  case (Cons p es)
  obtain h e where "p = (h, e)" by (cases p)
  with Cons step_filled [of s h e] show ?case by simp
qed

text \<open>
  C10. A task is handed to \<^verbatim>\<open>send\<close> only when its url and its instruction are both
  non-empty: whatever happens to the page from its first rendering on (submissions,
  timers, socket events, frames), every task it has sent has both fields filled in.
\<close>

theorem only_filled_tasks_sent:
  "\<forall>t \<in> set (sent (run home_init es)). url t \<noteq> [] \<and> instruction t \<noteq> []"
  using run_filled [of home_init es]
  by (simp add: tasks_held_def filled_def home_init_def)

lemma run0_sent:
  "sent (run home_init run0) = [\<lparr>url = ''https://example.com'', instruction = ''find the pricing link''\<rparr>]"
  by (simp add: run0_def home_init_def host0_def mount_effect_def connect_fires_def
        connectWebSocket_def onopen_def handleSubmit_def handleSubmitTask_def Let_def)

theorem only_filled_tasks_sent_witness:
  "sent (run home_init run0)
     = [\<lparr>url = ''https://example.com'', instruction = ''find the pricing link''\<rparr>] \<and>
   url (hd (sent (run home_init run0))) \<noteq> [] \<and>
   instruction (hd (sent (run home_init run0))) \<noteq> []"
  using only_filled_tasks_sent [of run0] run0_sent by simp

lemma step_held:
  "\<forall>t \<in> tasks_held (step h s e).
      t \<in> tasks_held s \<or> (\<exists>u i. e = FormSubmit u i \<and> t = \<lparr>url = u, instruction = i\<rparr>)"
  using step_sent [of h s e] step_timers [of h s e]
  by (fastforce simp: tasks_held_def)

lemma step_sent_grows: "\<exists>new. sent (step h s e) = sent s @ new"
  using step_sent [of h s e] by auto

lemma run_sent_grows: "\<exists>new. sent (run s es) = sent s @ new"
proof (induction es arbitrary: s)
  case Nil
  then show ?case by simp
next
  case (Cons p es)
  obtain h e where p: "p = (h, e)" by (cases p)
  obtain n1 where "sent (step h s e) = sent s @ n1"
    using step_sent_grows by blast
  moreover obtain n2 where "sent (run (step h s e) es) = sent (step h s e) @ n2"
    using Cons.IH by blast
  ultimately show ?case using p by simp
qed

lemma run_held:
  "\<forall>t \<in> tasks_held (run s es).
      t \<in> tasks_held s \<or> (\<exists>h u i. (h, FormSubmit u i) \<in> set es \<and> t = \<lparr>url = u, instruction = i\<rparr>)"
proof (induction es arbitrary: s)
  case Nil
  then show ?case by simp
next
  case (Cons p es)
  obtain h e where p: "p = (h, e)" by (cases p)
  show ?case
  proof
    fix t assume "t \<in> tasks_held (run s (p # es))"
    then have "t \<in> tasks_held (run (step h s e) es)" using p by simp
    with Cons.IH [of "step h s e"]
    consider "t \<in> tasks_held (step h s e)"
      | "\<exists>h u i. (h, FormSubmit u i) \<in> set es \<and> t = \<lparr>url = u, instruction = i\<rparr>"
      by blast
    then show "t \<in> tasks_held s
        \<or> (\<exists>h u i. (h, FormSubmit u i) \<in> set (p # es) \<and> t = \<lparr>url = u, instruction = i\<rparr>)"
    proof cases
      case 1
      with step_held [of h s e] p show ?thesis by fastforce
    next
      case 2
      then show ?thesis by auto
    qed
  qed
qed

text \<open>
  C7. A task is its two string fields, \<^verbatim>\<open>url\<close> and \<^verbatim>\<open>instruction\<close>, and nothing changes
  them after submission. Over any run of the page, from any state: what was sent stays
  as it was sent (the sent frames only grow at the end), and every task the page holds
  afterwards, sent or waiting in a retry timer, is one it held before or has exactly the
  url and the instruction of a submission of the run.
\<close>

theorem task_fields_never_change:
  "(\<forall>t::BrowsingTask. t = \<lparr>url = url t, instruction = instruction t\<rparr>) \<and>
   (\<exists>new. sent (run s es) = sent s @ new) \<and>
   (\<forall>t \<in> tasks_held (run s es).
      t \<in> tasks_held s
      \<or> (\<exists>h u i. (h, FormSubmit u i) \<in> set es \<and> t = \<lparr>url = u, instruction = i\<rparr>))"
  using run_sent_grows [of s es] run_held [of s es] by simp

lemma run_retry_sent:
  "sent (run home_init run_retry)
     = [\<lparr>url = ''https://example.com'', instruction = ''find the pricing link''\<rparr>]"
  by (simp add: run_retry_def home_init_def host0_def mount_effect_def
        connectWebSocket_def onopen_def handleSubmit_def handleSubmitTask_def retry_fires_def
        Let_def)

theorem task_fields_never_change_witness:
  "sent (run home_init run_retry)
     = [\<lparr>url = ''https://example.com'', instruction = ''find the pricing link''\<rparr>] \<and>
   retryTimers (run home_init (take 2 run_retry))
     = [\<lparr>url = ''https://example.com'', instruction = ''find the pricing link''\<rparr>] \<and>
   (host0, FormSubmit ''https://example.com'' ''find the pricing link'') \<in> set run_retry"
  using task_fields_never_change [of home_init run_retry] run_retry_sent
  by (simp add: run_retry_def home_init_def host0_def mount_effect_def
        connectWebSocket_def handleSubmit_def handleSubmitTask_def Let_def)

section \<open>Properties of the action loop of the specification\<close>












text \<open>
  A stage that would run past the wall-clock budget is cut at the deadline: with a budget
  of 3 and stages of 2 the run ends in \<^verbatim>\<open>FAILED\<close> with 3 spent.
\<close>

lemma run_tight:
  "run_loop cfg_tight env_miss 0 controller_init =
     \<lparr>phase = FAILED BudgetExceeded, iteration = 0, elapsed = 3, current = None,
      failures = 0, perceptionRetried = False\<rparr>"
  by code_simp

text \<open>
  The failure counter belongs to the directive: with a retry count of 1, two directives
  that fail in turn never exceed it, and the run ends with the iteration budget.
\<close>

lemma run_turns:
  "run_loop cfg0 env_turns 0 controller_init =
     \<lparr>phase = FAILED BudgetExceeded, iteration = 5, elapsed = 30,
      current = Some click_sign_in, failures = 1, perceptionRetried = False\<rparr>"
  by code_simp

lemma filter_first:
  "filter P xs = y # ys \<Longrightarrow>
     \<exists>i < length xs. xs ! i = y \<and> P (xs ! i) \<and> (\<forall>j < i. \<not> P (xs ! j))"
proof (induction xs)
  case Nil
  then show ?case by simp
next
  case (Cons x xs)
  show ?case
  proof (cases "P x")
    case True
    with Cons.prems have "x = y" by simp
    with True show ?thesis by (intro exI [of _ 0]) simp
  next
    case False
    with Cons.prems have "filter P xs = y # ys" by simp
    from Cons.IH [OF this] obtain i where
      i: "i < length xs" "xs ! i = y" "P (xs ! i)" "\<forall>j < i. \<not> P (xs ! j)"
      by blast
    have "\<forall>j < Suc i. \<not> P ((x # xs) ! j)"
    proof (intro allI impI)
      fix j assume "j < Suc i"
      then show "\<not> P ((x # xs) ! j)"
        using False i(4) by (cases j) auto
    qed
    with i show ?thesis by (intro exI [of _ "Suc i"]) simp
  qed
qed

lemma climb_result:
  "(\<forall>j < length rs. hits m (rs ! j) hint snap = [])
      \<and> climb m rs hint snap = \<lparr>candidates = [], tag = NoMatch, chosen = None\<rparr>
   \<or> (\<exists>k < length rs. (\<forall>j < k. hits m (rs ! j) hint snap = [])
          \<and> (\<exists>c cs. hits m (rs ! k) hint snap = c # cs
                \<and> climb m rs hint snap =
                    \<lparr>candidates = c # cs, tag = tag_of (rs ! k) (c # cs), chosen = Some c\<rparr>))"
proof (induction rs)
  case Nil
  then show ?case by simp
next
  case (Cons r rs)
  show ?case
  proof (cases "hits m r hint snap")
    case (Cons c cs)
    then show ?thesis by (intro disjI2 exI [of _ 0]) simp
  next
    case Nil
    from Cons.IH show ?thesis
    proof (elim disjE conjE exE)
      assume a: "\<forall>j < length rs. hits m (rs ! j) hint snap = []"
        and b: "climb m rs hint snap = \<lparr>candidates = [], tag = NoMatch, chosen = None\<rparr>"
      have "\<forall>j < length (r # rs). hits m ((r # rs) ! j) hint snap = []"
      proof (intro allI impI)
        fix j assume "j < length (r # rs)"
        then show "hits m ((r # rs) ! j) hint snap = []"
          using Nil a by (cases j) auto
      qed
      with b Nil show ?thesis by simp
    next
      fix k c cs
      assume k: "k < length rs" and a: "\<forall>j < k. hits m (rs ! j) hint snap = []"
        and h: "hits m (rs ! k) hint snap = c # cs"
        and b: "climb m rs hint snap =
                  \<lparr>candidates = c # cs, tag = tag_of (rs ! k) (c # cs), chosen = Some c\<rparr>"
      have "\<forall>j < Suc k. hits m ((r # rs) ! j) hint snap = []"
      proof (intro allI impI)
        fix j assume "j < Suc k"
        then show "hits m ((r # rs) ! j) hint snap = []"
          using Nil a by (cases j) auto
      qed
      with k h b Nil show ?thesis
        by (intro disjI2 exI [of _ "Suc k"]) simp
    qed
  qed
qed

lemma resolve_resolves: "resolves m hint snap (resolve m hint snap)"
proof -
  from climb_result [of ladder m hint snap] show ?thesis
  proof (elim disjE conjE exE)
    assume "\<forall>j < length ladder. hits m (ladder ! j) hint snap = []"
      and "climb m ladder hint snap = \<lparr>candidates = [], tag = NoMatch, chosen = None\<rparr>"
    then show ?thesis
      unfolding resolve_def using resolves.missed [of m hint snap] by simp
  next
    fix k c cs
    assume k: "k < length ladder" and a: "\<forall>j < k. hits m (ladder ! j) hint snap = []"
      and h: "hits m (ladder ! k) hint snap = c # cs"
      and b: "climb m ladder hint snap =
                \<lparr>candidates = c # cs, tag = tag_of (ladder ! k) (c # cs), chosen = Some c\<rparr>"
    let ?P = "\<lambda>c. isInteractable c \<and> rung_match m (ladder ! k) hint c"
    from h have "filter ?P snap = c # cs" by (simp add: hits_def)
    from filter_first [OF this] obtain i where
      i: "i < length snap" "snap ! i = c" "?P (snap ! i)" "\<forall>j < i. \<not> ?P (snap ! j)"
      by blast
    have "hits m (ladder ! k) hint snap \<noteq> []" using h by simp
    from resolves.found [OF k a this i(1) i(3) i(4)] h b i(2)
    show ?thesis unfolding resolve_def by simp
  qed
qed

lemma resolves_unique:
  assumes "resolves m hint snap r1" and "resolves m hint snap r2"
  shows "r1 = r2"
  using assms
proof (induction rule: resolves.induct)
  case (found k i)
  from found.prems show ?case
  proof (cases rule: resolves.cases)
    case (found k' i')
    have k: "k = k'"
      using found.hyps found by (metis nat_neq_iff)
    have "i = i'"
      using found.hyps found k by (metis nat_neq_iff)
    with k found show ?thesis by simp
  next
    case missed
    with found.hyps show ?thesis by blast
  qed
next
  case missed
  from missed.prems show ?case
  proof (cases rule: resolves.cases)
    case (found k' i')
    with missed.hyps show ?thesis by blast
  next
    case missed
    then show ?thesis by simp
  qed
qed

lemma resolves_earliest:
  assumes "resolves m hint snap r" and "chosen r = Some c"
  shows "\<exists>i < length snap. snap ! i = c \<and> c \<in> set (candidates r)
           \<and> (\<forall>j < i. snap ! j \<notin> set (candidates r))"
  using assms
proof (cases rule: resolves.cases)
  case (found k i)
  with assms(2) have c: "c = snap ! i" by simp
  have "snap ! i \<in> set (hits m (ladder ! k) hint snap)"
    using found by (simp add: hits_def)
  moreover have "\<forall>j < i. snap ! j \<notin> set (hits m (ladder ! k) hint snap)"
    using found by (simp add: hits_def)
  ultimately show ?thesis using found c by auto
next
  case missed
  with assms(2) show ?thesis by simp
qed

text \<open>
  C5. The resolver is deterministic. The rules of section 4.3 allow one result for a
  snapshot and a target hint: any two results they allow are equal, and equal to what
  \<open>resolve\<close> computes. The candidate chosen is the earliest in document order: it is one
  of the result's candidates, and no candidate of the result stands before it in the
  snapshot.
\<close>

theorem resolver_deterministic:
  assumes "resolves m hint snap r1" and "resolves m hint snap r2"
  shows "r1 = r2 \<and> r1 = resolve m hint snap
       \<and> (\<forall>c. chosen r1 = Some c \<longrightarrow>
            (\<exists>i < length snap. snap ! i = c \<and> c \<in> set (candidates r1)
               \<and> (\<forall>j < i. snap ! j \<notin> set (candidates r1))))"
  using resolves_unique [OF assms] resolves_unique [OF assms(1) resolve_resolves]
    resolves_earliest [OF assms(1)]
  by blast

lemma resolve_products:
  "resolve matcher0 ''Products'' snap0 =
     \<lparr>candidates = [link 2 ''Products'' ''/products'' True,
                    link 3 ''Products'' ''/enterprise/products'' True],
      tag = Ambiguous,
      chosen = Some (link 2 ''Products'' ''/products'' True)\<rparr>"
  by (simp add: resolve_def ladder_def hits_def tag_of_def matcher0_def snap0_def link_def)

theorem resolver_deterministic_witness:
  "resolves matcher0 ''Products'' snap0 (resolve matcher0 ''Products'' snap0) \<and>
   resolve matcher0 ''Products'' snap0 =
     \<lparr>candidates = [link 2 ''Products'' ''/products'' True,
                    link 3 ''Products'' ''/enterprise/products'' True],
      tag = Ambiguous,
      chosen = Some (link 2 ''Products'' ''/products'' True)\<rparr> \<and>
   snap0 ! 2 = link 2 ''Products'' ''/products'' True \<and>
   snap0 ! 0 \<notin> set (candidates (resolve matcher0 ''Products'' snap0)) \<and>
   snap0 ! 1 \<notin> set (candidates (resolve matcher0 ''Products'' snap0))"
  using resolver_deterministic [OF resolve_resolves resolve_resolves, of matcher0 "''Products''" snap0]
    resolve_resolves [of matcher0 "''Products''" snap0] resolve_products
  by (simp add: snap0_def link_def)

text \<open>
  C3. The core takes a task, a url and an instruction, and returns a run id; it can be
  cancelled by that run id. \<open>startRun\<close> registers a run under the id it returns, holding
  the task as given, in \<^verbatim>\<open>PERCEIVING\<close>, and leaves the other runs alone. \<open>cancelRun\<close>
  accepts that id: it raises the run's stop signal, and the run's next transition is to
  \<^verbatim>\<open>FAILED\<close>, with the task still as given.
\<close>

theorem start_then_cancel:
  assumes "startRun t c = (rid, c')"
  shows "(\<exists>r. runs c' rid = Some r \<and> task r = t \<and> phase (ctl r) = PERCEIVING
              \<and> \<not> stopRequested r)
       \<and> (\<forall>i. i \<noteq> rid \<longrightarrow> runs c' i = runs c i)
       \<and> (\<exists>c''. cancelRun rid c' = Some c''
              \<and> (\<exists>r. runs c'' rid = Some r \<and> task r = t \<and> stopRequested r)
              \<and> (\<forall>cfg w. \<exists>r. runs (advance cfg rid w c'') rid = Some r \<and> task r = t
                      \<and> phase (ctl r) = FAILED Cancelled))"
  using assms
  by (auto simp: startRun_def cancelRun_def advance_def controller_init_def transition_def)

theorem start_then_cancel_witness:
  "startRun task0 core0 = (0, snd (startRun task0 core0)) \<and>
   map_option task (runs (snd (startRun task0 core0)) 0) = Some task0 \<and>
   map_option stopRequested (runs (the (cancelRun 0 (snd (startRun task0 core0)))) 0) = Some True \<and>
   map_option (\<lambda>r. phase (ctl r))
     (runs (advance cfg0 0 world_miss (the (cancelRun 0 (snd (startRun task0 core0))))) 0)
     = Some (FAILED Cancelled)"
  using start_then_cancel [of task0 core0 0 "snd (startRun task0 core0)"]
  by (simp add: startRun_def cancelRun_def advance_def core0_def controller_init_def
        transition_def world_miss_def)


end
